theory Spec2Isabelle
  imports Main
begin

section \<open>The keystone middleware (middleware.go) as HOL functions\<close>

text \<open>
  The package is a Go http middleware: \<open>ServeHTTP\<close> strips identity headers from the
  inbound request, looks the token of \<open>X-Auth-Token\<close> up in an optional cache,
  validates it against the Keystone endpoint otherwise, and writes the result into the
  request's headers before the next handler runs.

  Conventions of the embedding:
  \<^item> \<open>http.Header\<close> is Go's \<open>map[string][]string\<close>: a map from a key to the list of
    its values. \<open>Del\<close>, \<open>Set\<close> and \<open>Get\<close> of net/http canonicalise their key first;
    every key literal of middleware.go is already in canonical form, and net/http stores
    the keys of a received request in canonical form, so the model works on the keys as
    they are written.
  \<^item> \<open>time.Time\<close> is an instant, counted in nanoseconds since the Unix epoch (an
    \<open>int\<close>); \<open>time.Duration\<close> is Go's signed 64-bit count of nanoseconds.
  \<^item> A nil pointer is \<open>None\<close>; dereferencing it is the panic \<open>NilPointerDereference\<close>.
  \<^item> What the middleware reaches outside itself (the http client, the JSON decoder,
    the clock) is a field of the record \<open>world\<close>; the cache, a Go interface, is a record
    of its two methods over a state \<open>'c\<close> of the implementation.
  \<^item> \<open>fmt.Println\<close> (two log lines on stdout) is left out.
\<close>

subsection \<open>net/http headers\<close>

type_synonym Header = "string \<rightharpoonup> string list"

definition Header_Del :: "Header \<Rightarrow> string \<Rightarrow> Header" where
  "Header_Del h key = h(key := None)"

definition Header_Set :: "Header \<Rightarrow> string \<Rightarrow> string \<Rightarrow> Header" where
  "Header_Set h key v = h(key \<mapsto> [v])"

text \<open>\<open>Get\<close> is the first value of the key, and the empty string when there is none.\<close>

definition Header_Get :: "Header \<Rightarrow> string \<Rightarrow> string" where
  "Header_Get h key = (case h key of None \<Rightarrow> [] | Some [] \<Rightarrow> [] | Some (v # _) \<Rightarrow> v)"

subsection \<open>time\<close>

type_synonym Time = int
type_synonym Duration = int

definition Second :: Duration where
  "Second = 1000000000"

definition Minute :: Duration where
  "Minute = 60 * Second"

definition minDuration :: Duration where
  "minDuration = - (2 ^ 63)"

definition maxDuration :: Duration where
  "maxDuration = 2 ^ 63 - 1"

text \<open>\<open>t.Unix()\<close>: the whole seconds since the epoch, rounded down.\<close>

definition time_Unix :: "Time \<Rightarrow> int" where
  "time_Unix t = t div 1000000000"

text \<open>
  \<open>t.Sub(u)\<close>: the duration \<open>t - u\<close>; when it does not fit a \<open>Duration\<close> the result is
  the largest or the smallest \<open>Duration\<close>.
\<close>

definition time_Sub :: "Time \<Rightarrow> Time \<Rightarrow> Duration" where
  "time_Sub t u =
     (let d = t - u
      in if d < minDuration then minDuration
         else if maxDuration < d then maxDuration
         else d)"

subsection \<open>The token and the response of the identity server\<close>

record domain =
  domain_ID :: string
  domain_Name :: string
  domain_Enabled :: bool

record project =
  project_ID :: string
  project_DomainID :: string
  project_Name :: string
  project_Enabled :: bool
  project_Domain :: "domain option"

record user_domain =
  user_domain_ID :: string
  user_domain_Name :: string

record user =
  user_ID :: string
  user_Name :: string
  user_Email :: string
  user_Enabled :: bool
  user_DomainID :: string
  user_Domain :: user_domain

record role =
  role_ID :: string
  role_Name :: string

record token =
  token_ExpiresAt :: Time
  token_IssuedAt :: Time
  token_User :: user
  token_Project :: "project option"
  token_Domain :: "domain option"
  token_Roles :: "role list option"

record error_object =
  error_Code :: int
  error_Message :: string
  error_Title :: string

record authResponse =
  resp_Error :: "error_object option"
  resp_Token :: "token option"

text \<open>\<open>Valid\<close> reads the clock; the reading is the argument \<open>now\<close>.\<close>

definition Valid :: "token \<Rightarrow> Time \<Rightarrow> bool" where
  "Valid t now \<longleftrightarrow>
     time_Unix (token_IssuedAt t) \<le> time_Unix now \<and> time_Unix now < time_Unix (token_ExpiresAt t)"

subsection \<open>Headers: the projection of a token\<close>

datatype panic = NilPointerDereference

text \<open>\<open>strings.Join\<close>: the first element, then the separator before each further one.\<close>

fun strings_Join :: "string list \<Rightarrow> string \<Rightarrow> string" where
  "strings_Join [] sep = []"
| "strings_Join (e # elems) sep = e @ concat (map (\<lambda>s. sep @ s) elems)"

text \<open>The loop over \<open>*t.Roles\<close> that appends each role's name to \<open>roleNames\<close>.\<close>

fun roleNames_loop :: "role list \<Rightarrow> string list \<Rightarrow> string list" where
  "roleNames_loop [] roleNames = roleNames"
| "roleNames_loop (r # rest) roleNames = roleNames_loop rest (roleNames @ [role_Name r])"

definition Headers :: "token \<Rightarrow> panic + (string \<rightharpoonup> string)" where
  "Headers t =
     (let headers = Map.empty;
          headers = headers(''X-User-Id'' \<mapsto> user_ID (token_User t));
          headers = headers(''X-User-Name'' \<mapsto> user_Name (token_User t));
          headers = headers(''X-User-Domain-Id'' \<mapsto> user_DomainID (token_User t));
          headers = headers(''X-User-Domain-Name'' \<mapsto> user_domain_Name (user_Domain (token_User t)))
      in case
           (case token_Project t of
              None \<Rightarrow> Inr headers
            | Some p \<Rightarrow>
                let headers = headers(''X-Project-Name'' \<mapsto> project_Name p);
                    headers = headers(''X-Project-Id'' \<mapsto> project_ID p)
                in (case project_Domain p of
                      None \<Rightarrow> Inl NilPointerDereference
                    | Some d \<Rightarrow>
                        let headers = headers(''X-Project-Domain-Name'' \<mapsto> domain_Name d);
                            headers = headers(''X-Project-Domain-Id'' \<mapsto> project_DomainID p)
                        in Inr headers))
         of
           Inl p \<Rightarrow> Inl p
         | Inr headers \<Rightarrow>
             let headers =
                   (case token_Domain t of
                      None \<Rightarrow> headers
                    | Some d \<Rightarrow>
                        let headers = headers(''X-Domain-Id'' \<mapsto> domain_ID d);
                            headers = headers(''X-Domain-Name'' \<mapsto> domain_Name d)
                        in headers);
                 headers =
                   (case token_Roles t of
                      None \<Rightarrow> headers
                    | Some roles \<Rightarrow>
                        let roleNames = roleNames_loop roles []
                        in headers(''X-Roles'' \<mapsto> strings_Join roleNames '',''))
             in Inr headers)"

subsection \<open>filterIncomingHeaders\<close>

text \<open>The keys of the twenty-nine \<open>req.Header.Del\<close> statements, in the order of the source.\<close>

definition filtered_keys :: "string list" where
  "filtered_keys =
     [''X-Identity-Status'', ''X-Service-Identity-Status'',
      ''X-Domain-Id'', ''X-Service-Domain-Id'',
      ''X-Domain-Name'', ''X-Service-Domain-Name'',
      ''X-Project-Id'', ''X-Service-Project-Id'',
      ''X-Project-Name'', ''X-Service-Project-Name'',
      ''X-Project-Domain-Id'', ''X-Service-Project-Domain-Id'',
      ''X-Project-Domain-Name'', ''X-Service-Project-Domain-Name'',
      ''X-User-Id'', ''X-Service-User-Id'',
      ''X-User-Name'', ''X-Service-User-Name'',
      ''X-User-Domain-Id'', ''X-Service-User-Domain-Id'',
      ''X-User-Domain-Name'', ''X-Service-User-Domain-Name'',
      ''X-Roles'', ''X-Service-Roles'',
      ''X-Servie-Catalog'',
      ''X-Tenant-Id'', ''X-Tenant'', ''X-User'', ''X-Role'']"

definition filterIncomingHeaders :: "Header \<Rightarrow> Header" where
  "filterIncomingHeaders req = fold (\<lambda>key h. Header_Del h key) filtered_keys req"

subsection \<open>The cache, the handler and the outside world\<close>

text \<open>
  The interface \<open>Cache\<close>: \<open>Set(key, value, ttl)\<close> and \<open>Get(key, &value)\<close>, which reports
  whether a value was found. Both may change the state of the implementation.
\<close>

record 'c Cache =
  cache_Set :: "string \<Rightarrow> token \<Rightarrow> Duration \<Rightarrow> 'c \<Rightarrow> 'c"
  cache_Get :: "string \<Rightarrow> 'c \<Rightarrow> token option \<times> 'c"

record 'c Auth =
  Endpoint :: string
  UserAgent :: string
  TokenCache :: "'c Cache option"
  CacheTime :: Duration

text \<open>\<open>Handler\<close> fills in the defaults of the cache time and of the user agent.\<close>

definition Handler :: "'c Auth \<Rightarrow> 'c Auth" where
  "Handler a =
     (let a = (if CacheTime a = 0 then a\<lparr>CacheTime := 5 * Minute\<rparr> else a);
          a = (if UserAgent a = [] then a\<lparr>UserAgent := ''go-keystone-middleware/1.0''\<rparr> else a)
      in a)"

record out_request =
  out_Method :: string
  out_URL :: string
  out_Header :: Header

record response =
  StatusCode :: int
  Status :: string
  Body :: string

text \<open>
  The collaborators of one request: whether \<open>http.NewRequest\<close> accepts a URL (its error
  otherwise), the answer of \<open>client.Do\<close> (a transport error or a response), the result of
  decoding a body as \<open>authResponse\<close>, and the two readings of \<open>time.Now()\<close>: the one in
  \<open>Valid\<close> and the one that bounds the cache time.
\<close>

record world =
  NewRequest_error :: "string \<Rightarrow> string option"
  client_Do :: "out_request \<Rightarrow> string + response"
  json_Decode :: "string \<Rightarrow> string + authResponse"
  Now_Valid :: Time
  Now_ttl :: Time

subsection \<open>validate\<close>

text \<open>One constructor for each \<open>return nil, err\<close> of \<open>validate\<close>, in the order of the source.\<close>

datatype error =
    NewRequestFailed string
  | ClientDoFailed string
  | StatusAtLeast400 string
  | DecodeFailed string
  | ErrorInResponse string string
  | StatusNotOK string
  | NoTokenContext
  | TokenNotValid

text \<open>
  The result of \<open>validate\<close>, and the requests it sent to the identity server (none when
  the request could not be built, one otherwise).
\<close>

text \<open>
  The request \<open>validate\<close> builds once \<open>http.NewRequest\<close> has accepted the URL: the token
  in both token headers, and the user agent.
\<close>

definition validate_url :: "'c Auth \<Rightarrow> string" where
  "validate_url h = Endpoint h @ ''/auth/tokens?nocatalog''"

definition validate_request :: "'c Auth \<Rightarrow> string \<Rightarrow> out_request" where
  "validate_request h tok =
     (let hdr = Map.empty;
          hdr = Header_Set hdr ''X-Auth-Token'' tok;
          hdr = Header_Set hdr ''X-Subject-Token'' tok;
          hdr = Header_Set hdr ''User-Agent'' (UserAgent h)
      in \<lparr>out_Method = ''GET'', out_URL = validate_url h, out_Header = hdr\<rparr>)"

definition validate :: "'c Auth \<Rightarrow> world \<Rightarrow> string \<Rightarrow> (error + token) \<times> out_request list" where
  "validate h w tok =
     (case NewRequest_error w (validate_url h) of
        Some err \<Rightarrow> (Inl (NewRequestFailed err), [])
      | None \<Rightarrow>
          let req = validate_request h tok
          in (case client_Do w req of
                Inl err \<Rightarrow> (Inl (ClientDoFailed err), [req])
              | Inr r \<Rightarrow>
                  if 400 \<le> StatusCode r then (Inl (StatusAtLeast400 (Status r)), [req])
                  else (case json_Decode w (Body r) of
                          Inl err \<Rightarrow> (Inl (DecodeFailed err), [req])
                        | Inr resp \<Rightarrow>
                            (case resp_Error resp of
                               Some e \<Rightarrow> (Inl (ErrorInResponse (Status r) (error_Message e)), [req])
                             | None \<Rightarrow>
                                 if StatusCode r \<noteq> 200 then (Inl (StatusNotOK (Status r)), [req])
                                 else (case resp_Token resp of
                                         None \<Rightarrow> (Inl NoTokenContext, [req])
                                       | Some t \<Rightarrow>
                                           if \<not> Valid t (Now_Valid w) then (Inl TokenNotValid, [req])
                                           else (Inr t, [req]))))))"

subsection \<open>ServeHTTP\<close>

text \<open>
  What one run of \<open>ServeHTTP\<close> does: the header of the request when the deferred call of
  the next handler runs (the call is deferred first, so it runs once on every way out,
  also when the function panics), the state of the cache, the arguments of every
  \<open>Set\<close>, the tokens given to \<open>validate\<close>, the requests sent to the identity server, and
  the panic the function ends with, if any. \<open>ServeHTTP\<close> never writes to the
  \<open>ResponseWriter\<close>: it only hands it to the next handler.
\<close>

record 'c outcome =
  downstream :: Header
  cache_after :: 'c
  cache_writes :: "(string \<times> token \<times> Duration) list"
  validate_calls :: "string list"
  authority_requests :: "out_request list"
  panicked :: "panic option"

text \<open>
  The loop \<open>for k, v := range context.Headers() { req.Header.Set(k, v) }\<close>: the keys of
  a map are distinct, so in whatever order the loop runs, each key of the projection
  ends with its one value, and every other key keeps what it had.
\<close>

definition set_headers :: "(string \<rightharpoonup> string) \<Rightarrow> Header \<Rightarrow> Header" where
  "set_headers hs hdr = (\<lambda>k. case hs k of None \<Rightarrow> hdr k | Some v \<Rightarrow> Some [v])"

text \<open>The last statements of \<open>ServeHTTP\<close>, reached with a token from the cache or from \<open>validate\<close>.\<close>

definition confirm :: "Header \<Rightarrow> token \<Rightarrow> Header \<times> panic option" where
  "confirm req context =
     (let req = Header_Set req ''X-Identity-Status'' ''Confirmed''
      in case Headers context of
           Inl p \<Rightarrow> (req, Some p)
         | Inr hs \<Rightarrow> (set_headers hs req, None))"

definition ServeHTTP :: "'c Auth \<Rightarrow> world \<Rightarrow> 'c \<Rightarrow> Header \<Rightarrow> 'c outcome" where
  "ServeHTTP h w cs req =
     (let req = filterIncomingHeaders req;
          req = Header_Set req ''X-Identity-Status'' ''Invalid'';
          authToken = Header_Get req ''X-Auth-Token''
      in if authToken = [] then
           \<lparr>downstream = req, cache_after = cs, cache_writes = [], validate_calls = [],
            authority_requests = [], panicked = None\<rparr>
         else
           let (cached, cs) =
                 (case TokenCache h of
                    None \<Rightarrow> (None, cs)
                  | Some c \<Rightarrow> cache_Get c authToken cs)
           in case cached of
                Some cachedToken \<Rightarrow>
                  let (req, p) = confirm req cachedToken
                  in \<lparr>downstream = req, cache_after = cs, cache_writes = [], validate_calls = [],
                      authority_requests = [], panicked = p\<rparr>
              | None \<Rightarrow>
                  (case validate h w authToken of
                     (Inl err, sent) \<Rightarrow>
                       \<lparr>downstream = req, cache_after = cs, cache_writes = [],
                        validate_calls = [authToken], authority_requests = sent, panicked = None\<rparr>
                   | (Inr context, sent) \<Rightarrow>
                       let (cs, writes) =
                             (case TokenCache h of
                                None \<Rightarrow> (cs, [])
                              | Some c \<Rightarrow>
                                  let ttl = CacheTime h;
                                      expiresIn = time_Sub (token_ExpiresAt context) (Now_ttl w);
                                      ttl = (if expiresIn < CacheTime h then expiresIn else ttl)
                                  in (cache_Set c authToken context ttl cs,
                                      [(authToken, context, ttl)]));
                           (req, p) = confirm req context
                       in \<lparr>downstream = req, cache_after = cs, cache_writes = writes,
                           validate_calls = [authToken], authority_requests = sent, panicked = p\<rparr>))"

subsection \<open>The keys of the projection\<close>

text \<open>The keys \<open>Headers\<close> assigns, in the order of the source.\<close>

definition projected_keys :: "string list" where
  "projected_keys =
     [''X-User-Id'', ''X-User-Name'', ''X-User-Domain-Id'', ''X-User-Domain-Name'',
      ''X-Project-Name'', ''X-Project-Id'', ''X-Project-Domain-Name'', ''X-Project-Domain-Id'',
      ''X-Domain-Id'', ''X-Domain-Name'', ''X-Roles'']"

text \<open>
  \<open>Headers\<close> dereferences \<open>project.Domain\<close> without a check. It returns on the tokens
  that have no project, or a project with its domain.
\<close>

definition project_domain_present :: "token \<Rightarrow> bool" where
  "project_domain_present t =
     (case token_Project t of None \<Rightarrow> True | Some p \<Rightarrow> project_Domain p \<noteq> None)"

subsection \<open>Values of middleware\_test.go\<close>

definition test_user :: user where
  "test_user =
     \<lparr>user_ID = ''u-42e54ca0c'', user_Name = ''arc'', user_Email = [], user_Enabled = True,
      user_DomainID = ''o-testdomain'',
      user_Domain = \<lparr>user_domain_ID = ''o-testdomain'', user_domain_Name = ''testdomain''\<rparr>\<rparr>"

definition test_domain :: domain where
  "test_domain =
     \<lparr>domain_ID = ''o-testdomain'', domain_Name = ''testdomain'', domain_Enabled = True\<rparr>"

definition test_project :: project where
  "test_project =
     \<lparr>project_ID = ''p-d61611de1'', project_DomainID = ''o-testdomain'', project_Name = ''Arc'',
      project_Enabled = True, project_Domain = Some test_domain\<rparr>"

text \<open>The token of TestUnscopedToken: issued 2015-10-08T07:40:33.099Z, expires 2020-10-08T08:40:33.100Z.\<close>

definition unscoped_token :: token where
  "unscoped_token =
     \<lparr>token_ExpiresAt = 1602146433100000000, token_IssuedAt = 1444290033099000000,
      token_User = test_user, token_Project = None, token_Domain = None, token_Roles = None\<rparr>"

text \<open>The token of TestProjectScopedToken.\<close>

definition project_scoped_token :: token where
  "project_scoped_token =
     \<lparr>token_ExpiresAt = 1602256152355000000, token_IssuedAt = 1444316952355000000,
      token_User = test_user, token_Project = Some test_project, token_Domain = None,
      token_Roles = Some [\<lparr>role_ID = ''r-member'', role_Name = ''member''\<rparr>]\<rparr>"

text \<open>The token of TestDomainScopedToken: issued 2015-10-08T15:09:11.727Z, expires a day later.\<close>

definition domain_scoped_token :: token where
  "domain_scoped_token =
     \<lparr>token_ExpiresAt = 1444403351727000000, token_IssuedAt = 1444316951727000000,
      token_User = test_user, token_Project = None, token_Domain = Some test_domain,
      token_Roles = Some [\<lparr>role_ID = ''r-member'', role_Name = ''member''\<rparr>,
                          \<lparr>role_ID = ''r-blafasel'', role_Name = ''blafasel''\<rparr>]\<rparr>"

text \<open>
  A response whose project has no \<open>domain\<close> (and no \<open>domain_id\<close>) and whose \<open>roles\<close>
  is the empty array decodes to a project whose \<open>Domain\<close> is nil, and to \<open>Roles\<close>
  pointing to an empty slice.
\<close>

definition bare_project_token :: token where
  "bare_project_token =
     project_scoped_token
       \<lparr>token_Project := Some (test_project\<lparr>project_DomainID := [], project_Domain := None\<rparr>),
        token_Roles := Some []\<rparr>"

text \<open>A project whose \<open>domain_id\<close> is not the id of its embedded domain.\<close>

definition split_domain_token :: token where
  "split_domain_token =
     project_scoped_token
       \<lparr>token_Project := Some (test_project\<lparr>project_DomainID := ''o-field''\<rparr>)\<rparr>"

text \<open>The cache of the tests: a map, whose \<open>Set\<close> ignores the ttl.\<close>

definition cacheMock :: "(string \<rightharpoonup> token) Cache" where
  "cacheMock =
     \<lparr>cache_Set = (\<lambda>k v ttl c. c(k \<mapsto> v)), cache_Get = (\<lambda>k c. (c k, c))\<rparr>"

definition test_auth :: "(string \<rightharpoonup> token) Auth" where
  "test_auth =
     Handler \<lparr>Endpoint = ''http://127.0.0.1:5000/v3'', UserAgent = [],
              TokenCache = Some cacheMock, CacheTime = 0\<rparr>"

text \<open>
  The unscoped token with its two timestamps cut to whole seconds, and the instant
  2020-10-08T08:40:33.050Z, in the last second of the unscoped token.
\<close>

definition whole_second_token :: token where
  "whole_second_token =
     unscoped_token\<lparr>token_ExpiresAt := 1602146433000000000, token_IssuedAt := 1444290033000000000\<rparr>"

definition last_instant :: Time where
  "last_instant = 1602146433050000000"

text \<open>
  Three bodies of the identity server: the token of TestUnscopedToken (without the
  fields the struct \<open>token\<close> does not have), the same token with its timestamps on
  whole seconds, and the error of a rejected request.
\<close>

definition unscoped_body :: string where
  \<open>unscoped_body =
     ''{"token":{"expires_at":"2020-10-08T08:40:33.100Z","issued_at":"2015-10-08T07:40:33.099Z","user":{"id":"u-42e54ca0c","name":"arc","enabled":true,"domain_id":"o-testdomain","domain":{"id":"o-testdomain","name":"testdomain"}}}}''\<close>

definition whole_second_body :: string where
  \<open>whole_second_body =
     ''{"token":{"expires_at":"2020-10-08T08:40:33Z","issued_at":"2015-10-08T07:40:33Z","user":{"id":"u-42e54ca0c","name":"arc","enabled":true,"domain_id":"o-testdomain","domain":{"id":"o-testdomain","name":"testdomain"}}}}''\<close>

definition unauthorized_body :: string where
  \<open>unauthorized_body =
     ''{"error":{"code":401,"message":"The request you have made requires authentication.","title":"Unauthorized"}}''\<close>

text \<open>
  What \<open>json.NewDecoder(r.Body).Decode(&resp)\<close> makes of these bodies, of the empty
  object (an envelope with neither error nor token) and of an empty body (the error
  \<open>EOF\<close>). No other body is served below; the table takes any other as not JSON.
\<close>

definition test_Decode :: "string \<Rightarrow> string + authResponse" where
  "test_Decode body =
     (if body = unscoped_body then
        Inr \<lparr>resp_Error = None, resp_Token = Some unscoped_token\<rparr>
      else if body = whole_second_body then
        Inr \<lparr>resp_Error = None, resp_Token = Some whole_second_token\<rparr>
      else if body = unauthorized_body then
        Inr \<lparr>resp_Error =
               Some \<lparr>error_Code = 401,
                     error_Message = ''The request you have made requires authentication.'',
                     error_Title = ''Unauthorized''\<rparr>,
             resp_Token = None\<rparr>
      else if body = ''{}'' then Inr \<lparr>resp_Error = None, resp_Token = None\<rparr>
      else if body = [] then Inl ''EOF''
      else Inl ''invalid character'')"

text \<open>
  An identity server that answers every request with the given status and body; the
  clock reads \<open>now\<close> both times.
\<close>

definition identityMock :: "int \<Rightarrow> string \<Rightarrow> string \<Rightarrow> Time \<Rightarrow> world" where
  "identityMock code status body now =
     \<lparr>NewRequest_error = (\<lambda>url. None),
      client_Do = (\<lambda>req. Inr \<lparr>StatusCode = code, Status = status, Body = body\<rparr>),
      json_Decode = test_Decode,
      Now_Valid = now, Now_ttl = now\<rparr>"

text \<open>2016-01-01T00:00:00Z and 2015-10-08T07:40:33.000Z.\<close>

definition new_year_2016 :: Time where
  "new_year_2016 = 1451606400000000000"

definition before_issue :: Time where
  "before_issue = 1444290033000000000"

definition test_request :: Header where
  "test_request = [''X-Auth-Token'' \<mapsto> [''1234'']]"

text \<open>
  The request of TestSpoofProtection, with a service catalog added; the same request with
  a token and a role; an identity server that cannot be reached; and the instant one
  minute before the unscoped token expires.
\<close>

definition spoofed_request :: Header where
  "spoofed_request =
     [''X-Identity-Status'' \<mapsto> [''Confirmed''], ''X-Project-Id'' \<mapsto> [''p-1234''],
      ''X-Domain-Id'' \<mapsto> [''d-1234''], ''X-Service-Catalog'' \<mapsto> [''spoofed'']]"

definition spoofed_token_request :: Header where
  "spoofed_token_request =
     spoofed_request(''X-Auth-Token'' \<mapsto> [''1234''], ''X-Roles'' \<mapsto> [''admin''])"

definition offline :: "Time \<Rightarrow> world" where
  "offline now =
     \<lparr>NewRequest_error = (\<lambda>url. None),
      client_Do = (\<lambda>req. Inl ''connection refused''),
      json_Decode = (\<lambda>body. Inl ''EOF''),
      Now_Valid = now, Now_ttl = now\<rparr>"


text \<open>
  Two requests with the same token, one after the other on the cache of the tests: the
  first is validated by the identity server, the second arrives when the server cannot
  be reached, and with a spoofed \<open>X-Roles\<close>.
\<close>

definition first_outcome :: "(string \<rightharpoonup> token) outcome" where
  "first_outcome =
     ServeHTTP test_auth (identityMock 200 ''200 OK'' unscoped_body new_year_2016) Map.empty
       test_request"

definition second_outcome :: "(string \<rightharpoonup> token) outcome" where
  "second_outcome =
     ServeHTTP test_auth (offline new_year_2016) (cache_after first_outcome)
       spoofed_token_request"

section \<open>Properties\<close>

subsection \<open>The projection\<close>


lemma Headers_returns_iff: "(\<exists>h. Headers t = Inr h) \<longleftrightarrow> project_domain_present t"
  by (auto simp add: Headers_def project_domain_present_def Let_def split: option.splits)

lemma Headers_keys:
  assumes "Headers t = Inr h" and "h k = Some v"
  shows "k \<in> set projected_keys"
  using assms
  by (auto simp add: Headers_def projected_keys_def Let_def split: option.splits if_splits)

text \<open>
  C9. The projection is not total: on a token that has a project whose embedded domain
  is nil, \<open>Headers\<close> panics with a nil pointer dereference (at \<open>project.Domain.Name\<close>); it
  neither leaves \<open>X-Project-Domain-Name\<close> out nor gives it a default.
\<close>

theorem Headers_nil_project_domain:
  assumes "token_Project t = Some p" and "project_Domain p = None"
  shows "Headers t = Inl NilPointerDereference"
  using assms by (simp add: Headers_def)

theorem Headers_nil_project_domain_witness:
  "token_Project bare_project_token = Some (test_project\<lparr>project_DomainID := [], project_Domain := None\<rparr>)
   \<and> project_Domain (test_project\<lparr>project_DomainID := [], project_Domain := None\<rparr>) = None
   \<and> Headers bare_project_token = Inl NilPointerDereference"
proof -
  have p: "token_Project bare_project_token
             = Some (test_project\<lparr>project_DomainID := [], project_Domain := None\<rparr>)"
    by (simp add: bare_project_token_def)
  have d: "project_Domain (test_project\<lparr>project_DomainID := [], project_Domain := None\<rparr>) = None"
    by simp
  from Headers_nil_project_domain [OF p d] p d show ?thesis by simp
qed




text \<open>
  C2, as the code has it. On a token that has a project with its embedded domain,
  \<open>X-Project-Domain-Name\<close> is the name of the project's embedded domain, and
  \<open>X-Project-Domain-Id\<close> is the project's own field \<open>domain_id\<close> (as \<open>X-User-Domain-Id\<close>
  is the user's \<open>domain_id\<close>); the top-level domain of the token plays no part in either.
\<close>

theorem Headers_project_domain:
  assumes "token_Project t = Some p" and "project_Domain p = Some d"
  shows "\<exists>h. Headers t = Inr h
           \<and> h ''X-Project-Domain-Name'' = Some (domain_Name d)
           \<and> h ''X-Project-Domain-Id'' = Some (project_DomainID p)"
  using assms
  by (auto simp add: Headers_def Let_def split: option.splits)

theorem Headers_project_domain_witness:
  "token_Project split_domain_token = Some (test_project\<lparr>project_DomainID := ''o-field''\<rparr>)
   \<and> project_Domain (test_project\<lparr>project_DomainID := ''o-field''\<rparr>) = Some test_domain
   \<and> (\<exists>h. Headers split_domain_token = Inr h
          \<and> h ''X-Project-Domain-Name'' = Some ''testdomain''
          \<and> h ''X-Project-Domain-Id'' = Some ''o-field'')"
proof -
  have p: "token_Project split_domain_token = Some (test_project\<lparr>project_DomainID := ''o-field''\<rparr>)"
    by (simp add: split_domain_token_def)
  have d: "project_Domain (test_project\<lparr>project_DomainID := ''o-field''\<rparr>) = Some test_domain"
    by (simp add: test_project_def)
  from Headers_project_domain [OF p d] p d show ?thesis
    by (simp add: test_domain_def)
qed

text \<open>
  C2 as stated fails: for a project whose \<open>domain_id\<close> is \<open>o-field\<close> and whose embedded
  domain has the id \<open>o-testdomain\<close>, \<open>X-Project-Domain-Id\<close> is \<open>o-field\<close>, which is not
  the id of the embedded domain.
\<close>

theorem Headers_project_domain_id_counterexample:
  "token_Project split_domain_token = Some (test_project\<lparr>project_DomainID := ''o-field''\<rparr>)
   \<and> project_Domain (test_project\<lparr>project_DomainID := ''o-field''\<rparr>) = Some test_domain
   \<and> domain_ID test_domain = ''o-testdomain''
   \<and> (\<exists>h. Headers split_domain_token = Inr h
          \<and> h ''X-Project-Domain-Id'' = Some ''o-field''
          \<and> h ''X-Project-Domain-Id'' \<noteq> Some (domain_ID test_domain))"
  by (simp add: Headers_def split_domain_token_def project_scoped_token_def test_project_def
        test_domain_def)

subsection \<open>The validity window\<close>

lemma div_bounds_int:
  assumes "0 < (n::int)"
  shows "(a div n) * n \<le> a" and "a < (a div n + 1) * n"
proof -
  have eq: "(a div n) * n + a mod n = a" by simp
  have lo: "0 \<le> a mod n" and hi: "a mod n < n" using assms by simp_all
  show "(a div n) * n \<le> a" using eq lo by linarith
  have "(a div n + 1) * n = (a div n) * n + n" by (simp add: algebra_simps)
  then show "a < (a div n + 1) * n" using eq hi by linarith
qed

lemma div_le_iff_int:
  assumes "0 < (n::int)"
  shows "a div n \<le> k \<longleftrightarrow> a < (k + 1) * n"
proof
  assume "a div n \<le> k"
  then have "(a div n + 1) * n \<le> (k + 1) * n"
    using assms by (simp add: mult_right_mono)
  with div_bounds_int(2) [OF assms, of a] show "a < (k + 1) * n" by linarith
next
  assume less: "a < (k + 1) * n"
  show "a div n \<le> k"
  proof (rule ccontr)
    assume "\<not> a div n \<le> k"
    then have "k + 1 \<le> a div n" by simp
    then have "(k + 1) * n \<le> (a div n) * n"
      using assms by (simp add: mult_right_mono)
    with div_bounds_int(1) [OF assms, of a] less show False by linarith
  qed
qed

lemma less_div_iff_int:
  assumes "0 < (n::int)"
  shows "k < b div n \<longleftrightarrow> (k + 1) * n \<le> b"
  using div_le_iff_int [OF assms, of b k] by linarith

lemma time_Unix_le_iff: "time_Unix a \<le> k \<longleftrightarrow> a < (k + 1) * Second"
  unfolding time_Unix_def Second_def by (rule div_le_iff_int) simp

lemma time_Unix_less_iff: "k < time_Unix b \<longleftrightarrow> (k + 1) * Second \<le> b"
  unfolding time_Unix_def Second_def by (rule less_div_iff_int) simp

lemma time_Unix_whole: "Second dvd a \<Longrightarrow> time_Unix a * Second = a"
  unfolding time_Unix_def Second_def by simp

lemma Valid_next_second:
  "Valid t now \<longleftrightarrow>
     token_IssuedAt t < (time_Unix now + 1) * Second \<and>
     (time_Unix now + 1) * Second \<le> token_ExpiresAt t"
  by (simp add: Valid_def time_Unix_le_iff time_Unix_less_iff)

lemma time_Unix_bounds: "time_Unix a * Second \<le> a" "a < (time_Unix a + 1) * Second"
  unfolding time_Unix_def Second_def by (rule div_bounds_int, simp)+

lemma Valid_sufficient:
  assumes "token_IssuedAt t \<le> now" and "now + Second \<le> token_ExpiresAt t"
  shows "Valid t now"
  unfolding Valid_next_second
  using assms time_Unix_bounds [of now] by (simp add: algebra_simps)

lemma Valid_necessary:
  assumes "Valid t now"
  shows "token_IssuedAt t < now + Second" and "now < token_ExpiresAt t"
  using assms time_Unix_bounds [of now] unfolding Valid_next_second
  by (simp_all add: algebra_simps)

lemma Valid_whole:
  assumes "Second dvd token_IssuedAt t" "Second dvd now" "Second dvd token_ExpiresAt t"
  shows "Valid t now \<longleftrightarrow> token_IssuedAt t \<le> now \<and> now < token_ExpiresAt t"
proof -
  obtain i where i: "token_IssuedAt t = Second * i" using assms(1) by (auto simp: dvd_def)
  obtain n where n: "now = Second * n" using assms(2) by (auto simp: dvd_def)
  obtain e where e: "token_ExpiresAt t = Second * e" using assms(3) by (auto simp: dvd_def)
  show ?thesis
    by (simp add: Valid_def time_Unix_def i n e Second_def)
qed

subsection \<open>validate\<close>

lemma test_Decode_unscoped_body:
  "test_Decode unscoped_body = Inr \<lparr>resp_Error = None, resp_Token = Some unscoped_token\<rparr>"
  by (simp add: test_Decode_def)

lemma test_Decode_whole_second_body:
  "test_Decode whole_second_body = Inr \<lparr>resp_Error = None, resp_Token = Some whole_second_token\<rparr>"
  by (simp add: test_Decode_def) (simp add: whole_second_body_def unscoped_body_def)

lemma validate_reaches_Valid:
  assumes "NewRequest_error w (validate_url h) = None"
      and "client_Do w (validate_request h tok) = Inr r"
      and "StatusCode r = 200"
      and "json_Decode w (Body r) = Inr resp"
      and "resp_Error resp = None"
      and "resp_Token resp = Some t"
  shows "validate h w tok =
           (if Valid t (Now_Valid w) then Inr t else Inl TokenNotValid, [validate_request h tok])"
  using assms by (simp add: validate_def)

lemma validate_Inr_iff:
  "fst (validate h w tok) = Inr t \<longleftrightarrow>
      NewRequest_error w (validate_url h) = None \<and>
      (\<exists>r resp. client_Do w (validate_request h tok) = Inr r \<and> StatusCode r = 200 \<and>
                json_Decode w (Body r) = Inr resp \<and> resp_Error resp = None \<and>
                resp_Token resp = Some t \<and> Valid t (Now_Valid w))"
  by (auto simp add: validate_def Let_def split: option.splits sum.splits if_splits)

lemma validate_Inl_iff:
  "(\<exists>e. fst (validate h w tok) = Inl e) \<longleftrightarrow>
      NewRequest_error w (validate_url h) \<noteq> None
      \<or> (\<exists>e. client_Do w (validate_request h tok) = Inl e)
      \<or> (\<exists>r. client_Do w (validate_request h tok) = Inr r \<and>
           (400 \<le> StatusCode r
            \<or> (\<exists>e. json_Decode w (Body r) = Inl e)
            \<or> (\<exists>resp. json_Decode w (Body r) = Inr resp \<and>
                 (resp_Error resp \<noteq> None \<or> StatusCode r \<noteq> 200 \<or> resp_Token resp = None
                  \<or> (\<exists>t. resp_Token resp = Some t \<and> \<not> Valid t (Now_Valid w))))))"
  by (auto simp add: validate_def Let_def split: option.splits sum.splits if_splits)

text \<open>
  C6, as the code has it. \<open>Valid\<close> compares the three instants after cutting each to
  whole seconds (\<open>Unix()\<close>): a token is valid at \<open>now\<close> exactly when the start of the
  second after the one \<open>now\<close> lies in is later than \<open>issuedAt\<close> and not later than
  \<open>expiresAt\<close>. For instants on whole seconds this is \<open>issuedAt \<le> now < expiresAt\<close>; in
  general \<open>issuedAt \<le> now\<close> and \<open>now + 1s \<le> expiresAt\<close> are enough, and a valid
  token has \<open>issuedAt < now + 1s\<close> and \<open>now < expiresAt\<close>. When \<open>validate\<close> gets a response
  with status 200 whose body decodes to an envelope with no error and a token, it
  returns the token if it is valid and the error "Returned token is not valid" if not.
\<close>

theorem Valid_window:
  "(Valid t now \<longleftrightarrow>
      token_IssuedAt t < (time_Unix now + 1) * Second \<and>
      (time_Unix now + 1) * Second \<le> token_ExpiresAt t)
   \<and> (Second dvd token_IssuedAt t \<and> Second dvd now \<and> Second dvd token_ExpiresAt t \<longrightarrow>
        (Valid t now \<longleftrightarrow> token_IssuedAt t \<le> now \<and> now < token_ExpiresAt t))
   \<and> (token_IssuedAt t \<le> now \<and> now + Second \<le> token_ExpiresAt t \<longrightarrow> Valid t now)
   \<and> (Valid t now \<longrightarrow> token_IssuedAt t < now + Second \<and> now < token_ExpiresAt t)
   \<and> (NewRequest_error w (validate_url h) = None \<and>
        client_Do w (validate_request h tok) = Inr r \<and> StatusCode r = 200 \<and>
        json_Decode w (Body r) = Inr resp \<and> resp_Error resp = None \<and>
        resp_Token resp = Some t \<longrightarrow>
        fst (validate h w tok) = (if Valid t (Now_Valid w) then Inr t else Inl TokenNotValid))"
  using Valid_next_second [of t now] Valid_whole [of t now] Valid_sufficient [of t now]
    Valid_necessary [of t now] validate_reaches_Valid [of w h tok r resp t]
  by (simp del: One_nat_def)

theorem Valid_window_witness:
  "Second dvd token_IssuedAt whole_second_token \<and> Second dvd new_year_2016
   \<and> Second dvd token_ExpiresAt whole_second_token
   \<and> token_IssuedAt whole_second_token \<le> new_year_2016
   \<and> new_year_2016 + Second \<le> token_ExpiresAt whole_second_token
   \<and> Valid whole_second_token new_year_2016
   \<and> fst (validate test_auth (identityMock 200 ''200 OK'' whole_second_body new_year_2016) ''1234'')
       = Inr whole_second_token"
proof -
  let ?w = "identityMock 200 ''200 OK'' whole_second_body new_year_2016"
  let ?r = "\<lparr>StatusCode = 200, Status = ''200 OK'', Body = whole_second_body\<rparr>"
  let ?resp = "\<lparr>resp_Error = None, resp_Token = Some whole_second_token\<rparr>"
  have times: "token_IssuedAt whole_second_token = Second * 1444290033"
    "new_year_2016 = Second * 1451606400"
    "token_ExpiresAt whole_second_token = Second * 1602146433"
    by (simp_all add: whole_second_token_def new_year_2016_def Second_def)
  have dvd: "Second dvd token_IssuedAt whole_second_token" "Second dvd new_year_2016"
    "Second dvd token_ExpiresAt whole_second_token"
    unfolding times by simp_all
  have ord: "token_IssuedAt whole_second_token \<le> new_year_2016"
    "new_year_2016 + Second \<le> token_ExpiresAt whole_second_token"
    by (simp_all add: whole_second_token_def new_year_2016_def Second_def)
  have reach: "NewRequest_error ?w (validate_url test_auth) = None"
    "client_Do ?w (validate_request test_auth ''1234'') = Inr ?r" "StatusCode ?r = 200"
    "json_Decode ?w (Body ?r) = Inr ?resp" "resp_Error ?resp = None"
    "resp_Token ?resp = Some whole_second_token" "Now_Valid ?w = new_year_2016"
    by (simp_all add: identityMock_def test_Decode_whole_second_body)
  note window = Valid_window [of whole_second_token new_year_2016 ?w test_auth "''1234''" ?r ?resp]
  from window ord have valid: "Valid whole_second_token new_year_2016" by blast
  from window reach
  have "fst (validate test_auth ?w ''1234'')
          = (if Valid whole_second_token (Now_Valid ?w) then Inr whole_second_token
             else Inl TokenNotValid)"
    by blast
  with valid reach(7) have "fst (validate test_auth ?w ''1234'') = Inr whole_second_token"
    by simp
  with valid dvd ord show ?thesis by simp
qed

text \<open>
  C6 as stated fails below the second: the unscoped token of the tests, issued at
  07:40:33.099, is valid at 07:40:33.000, before it was issued; and at 08:40:33.050
  of its last day, 50 ms before it expires at 08:40:33.100, it is not valid.
\<close>

theorem Valid_counterexample:
  "Valid unscoped_token before_issue
   \<and> \<not> (token_IssuedAt unscoped_token \<le> before_issue \<and> before_issue < token_ExpiresAt unscoped_token)
   \<and> \<not> Valid unscoped_token last_instant
   \<and> (token_IssuedAt unscoped_token \<le> last_instant \<and> last_instant < token_ExpiresAt unscoped_token)"
  by (simp add: Valid_def time_Unix_def unscoped_token_def before_issue_def last_instant_def)

text \<open>
  C3, as the code has it. \<open>validate\<close> returns a token exactly when the request could be
  built, the client got a response, its status is 200, the body decodes to an envelope
  with no error object and with a token, and the token is valid now; the token it
  returns is the one of the envelope. It returns an error exactly when
  \<open>http.NewRequest\<close> fails, the transport fails, the status is at least 400, the body
  does not decode, the envelope has an error object, the status is not 200, the
  envelope has no token, or the token is not valid now.
\<close>

theorem validate_result:
  "(fst (validate h w tok) = Inr t \<longleftrightarrow>
      NewRequest_error w (validate_url h) = None \<and>
      (\<exists>r resp. client_Do w (validate_request h tok) = Inr r \<and> StatusCode r = 200 \<and>
                json_Decode w (Body r) = Inr resp \<and> resp_Error resp = None \<and>
                resp_Token resp = Some t \<and> Valid t (Now_Valid w)))
   \<and> ((\<exists>e. fst (validate h w tok) = Inl e) \<longleftrightarrow>
      NewRequest_error w (validate_url h) \<noteq> None
      \<or> (\<exists>e. client_Do w (validate_request h tok) = Inl e)
      \<or> (\<exists>r. client_Do w (validate_request h tok) = Inr r \<and>
           (400 \<le> StatusCode r
            \<or> (\<exists>e. json_Decode w (Body r) = Inl e)
            \<or> (\<exists>resp. json_Decode w (Body r) = Inr resp \<and>
                 (resp_Error resp \<noteq> None \<or> StatusCode r \<noteq> 200 \<or> resp_Token resp = None
                  \<or> (\<exists>t. resp_Token resp = Some t \<and> \<not> Valid t (Now_Valid w)))))))"
  using validate_Inr_iff [of h w tok t] validate_Inl_iff [of h w tok] by blast

theorem validate_result_witness:
  "NewRequest_error (identityMock 200 ''200 OK'' unscoped_body new_year_2016) (validate_url test_auth) = None
   \<and> client_Do (identityMock 200 ''200 OK'' unscoped_body new_year_2016) (validate_request test_auth ''1234'')
       = Inr \<lparr>StatusCode = 200, Status = ''200 OK'', Body = unscoped_body\<rparr>
   \<and> json_Decode (identityMock 200 ''200 OK'' unscoped_body new_year_2016) unscoped_body
       = Inr \<lparr>resp_Error = None, resp_Token = Some unscoped_token\<rparr>
   \<and> Valid unscoped_token new_year_2016
   \<and> fst (validate test_auth (identityMock 200 ''200 OK'' unscoped_body new_year_2016) ''1234'')
       = Inr unscoped_token
   \<and> (\<exists>e. fst (validate test_auth (identityMock 401 ''401 Unauthorized'' unauthorized_body new_year_2016) ''1234'')
       = Inl e)"
proof -
  let ?w = "identityMock 200 ''200 OK'' unscoped_body new_year_2016"
  let ?v = "identityMock 401 ''401 Unauthorized'' unauthorized_body new_year_2016"
  have valid: "Valid unscoped_token new_year_2016"
    by (simp add: Valid_def time_Unix_def unscoped_token_def new_year_2016_def)
  have ok: "NewRequest_error ?w (validate_url test_auth) = None \<and>
      (\<exists>r resp. client_Do ?w (validate_request test_auth ''1234'') = Inr r \<and> StatusCode r = 200 \<and>
                json_Decode ?w (Body r) = Inr resp \<and> resp_Error resp = None \<and>
                resp_Token resp = Some unscoped_token \<and> Valid unscoped_token (Now_Valid ?w))"
    using valid by (simp add: identityMock_def test_Decode_unscoped_body)
  have rejected: "\<exists>r. client_Do ?v (validate_request test_auth ''1234'') = Inr r \<and> 400 \<le> StatusCode r"
    by (simp add: identityMock_def)
  from validate_result [of test_auth ?w "''1234''" unscoped_token] ok
  have first: "fst (validate test_auth ?w ''1234'') = Inr unscoped_token" by blast
  from validate_result [of test_auth ?v "''1234''" unscoped_token] rejected
  have second: "\<exists>e. fst (validate test_auth ?v ''1234'') = Inl e" by blast
  from first second valid show ?thesis
    by (simp add: identityMock_def test_Decode_unscoped_body)
qed

text \<open>
  C3 as stated fails: a response with the status 201 whose body is the token of
  TestUnscopedToken, valid at the time, is none of the enumerated cases (the transport
  delivered it, 201 is below 400, the body decodes to an envelope with the token and no
  error), and \<open>validate\<close> returns the error of \<open>r.StatusCode != http.StatusOK\<close>.
\<close>

theorem validate_status_201_counterexample:
  "fst (validate test_auth (identityMock 201 ''201 Created'' unscoped_body new_year_2016) ''1234'')
     = Inl (StatusNotOK ''201 Created'')
   \<and> NewRequest_error (identityMock 201 ''201 Created'' unscoped_body new_year_2016)
        (validate_url test_auth) = None
   \<and> client_Do (identityMock 201 ''201 Created'' unscoped_body new_year_2016)
        (validate_request test_auth ''1234'')
       = Inr \<lparr>StatusCode = 201, Status = ''201 Created'', Body = unscoped_body\<rparr>
   \<and> \<not> (400 \<le> (201::int))
   \<and> json_Decode (identityMock 201 ''201 Created'' unscoped_body new_year_2016) unscoped_body
       = Inr \<lparr>resp_Error = None, resp_Token = Some unscoped_token\<rparr>
   \<and> Valid unscoped_token (Now_Valid (identityMock 201 ''201 Created'' unscoped_body new_year_2016))"
  by (simp add: validate_def identityMock_def test_Decode_unscoped_body Valid_def time_Unix_def
        unscoped_token_def new_year_2016_def)

subsection \<open>ServeHTTP\<close>

lemma fold_Header_Del:
  "fold (\<lambda>key h. Header_Del h key) keys req k = (if k \<in> set keys then None else req k)"
  by (induction keys arbitrary: req) (simp_all add: Header_Del_def)

lemma filterIncomingHeaders_apply:
  "filterIncomingHeaders req k = (if k \<in> set filtered_keys then None else req k)"
  by (simp add: filterIncomingHeaders_def fold_Header_Del)

lemma projected_keys_filtered: "set projected_keys \<subseteq> set filtered_keys"
  by (simp add: projected_keys_def filtered_keys_def)

lemma status_not_projected: "''X-Identity-Status'' \<notin> set projected_keys"
  by (simp add: projected_keys_def)

lemma Header_Get_sanitized_token:
  "Header_Get (Header_Set (filterIncomingHeaders req) ''X-Identity-Status'' ''Invalid'') ''X-Auth-Token''
     = Header_Get req ''X-Auth-Token''"
  by (simp add: Header_Get_def Header_Set_def filterIncomingHeaders_apply filtered_keys_def)

lemma sanitized_projected_key:
  assumes "k \<in> set projected_keys"
  shows "Header_Set (filterIncomingHeaders req) ''X-Identity-Status'' v k = None"
proof -
  have "k \<in> set filtered_keys" using assms projected_keys_filtered by blast
  moreover have "k \<noteq> ''X-Identity-Status''" using assms status_not_projected by blast
  ultimately show ?thesis by (simp add: Header_Set_def filterIncomingHeaders_apply)
qed

lemma confirm_status:
  "fst (confirm req t) ''X-Identity-Status'' = Some [''Confirmed'']"
proof (cases "Headers t")
  case (Inl p)
  then show ?thesis by (simp add: confirm_def Header_Set_def)
next
  case (Inr hs)
  have "hs ''X-Identity-Status'' = None"
  proof (cases "hs ''X-Identity-Status''")
    case None then show ?thesis .
  next
    case (Some v)
    with Inr Headers_keys status_not_projected show ?thesis by blast
  qed
  with Inr show ?thesis by (simp add: confirm_def set_headers_def Header_Set_def)
qed

lemma confirm_projected_key:
  assumes "k \<noteq> ''X-Identity-Status''"
  shows "fst (confirm req t) k =
           (case Headers t of
              Inl p \<Rightarrow> req k
            | Inr hs \<Rightarrow> (case hs k of None \<Rightarrow> req k | Some v \<Rightarrow> Some [v]))"
  using assms
  by (simp add: confirm_def set_headers_def Header_Set_def split: sum.splits option.splits)

lemma confirm_panic: "snd (confirm req t) = (case Headers t of Inl p \<Rightarrow> Some p | Inr hs \<Rightarrow> None)"
  by (simp add: confirm_def split: sum.splits)

lemma confirm_overwrites_status:
  "confirm (Header_Set req ''X-Identity-Status'' v) t =
     (case Headers t of
        Inl p \<Rightarrow> (Header_Set req ''X-Identity-Status'' ''Confirmed'', Some p)
      | Inr hs \<Rightarrow> (set_headers hs (Header_Set req ''X-Identity-Status'' ''Confirmed''), None))"
  by (simp add: confirm_def Header_Set_def split: sum.splits)

lemma ServeHTTP_no_token:
  assumes "Header_Get req ''X-Auth-Token'' = []"
  shows "ServeHTTP h w cs req =
           \<lparr>downstream = Header_Set (filterIncomingHeaders req) ''X-Identity-Status'' ''Invalid'',
            cache_after = cs, cache_writes = [], validate_calls = [],
            authority_requests = [], panicked = None\<rparr>"
  using assms by (simp add: ServeHTTP_def Header_Get_sanitized_token)

lemma ServeHTTP_hit:
  assumes "Header_Get req ''X-Auth-Token'' = tok" and "tok \<noteq> []"
      and "TokenCache h = Some c" and "cache_Get c tok cs = (Some cached, cs')"
  shows "ServeHTTP h w cs req =
           \<lparr>downstream =
              fst (confirm (Header_Set (filterIncomingHeaders req) ''X-Identity-Status'' ''Invalid'') cached),
            cache_after = cs', cache_writes = [], validate_calls = [],
            authority_requests = [],
            panicked =
              snd (confirm (Header_Set (filterIncomingHeaders req) ''X-Identity-Status'' ''Invalid'') cached)\<rparr>"
  using assms
  by (auto simp add: ServeHTTP_def Header_Get_sanitized_token Let_def
           split: prod.splits option.splits)

lemma ServeHTTP_rejected:
  assumes "Header_Get req ''X-Auth-Token'' = tok" and "tok \<noteq> []"
      and "(case TokenCache h of None \<Rightarrow> (None, cs) | Some c \<Rightarrow> cache_Get c tok cs) = (None, cs')"
      and "fst (validate h w tok) = Inl err"
  shows "ServeHTTP h w cs req =
           \<lparr>downstream = Header_Set (filterIncomingHeaders req) ''X-Identity-Status'' ''Invalid'',
            cache_after = cs', cache_writes = [], validate_calls = [tok],
            authority_requests = snd (validate h w tok), panicked = None\<rparr>"
  using assms
  by (cases "validate h w tok")
     (auto simp add: ServeHTTP_def Header_Get_sanitized_token Let_def
           split: prod.splits option.splits sum.splits)

lemma ServeHTTP_validated:
  assumes "Header_Get req ''X-Auth-Token'' = tok" and "tok \<noteq> []"
      and "(case TokenCache h of None \<Rightarrow> (None, cs) | Some c \<Rightarrow> cache_Get c tok cs) = (None, cs')"
      and "fst (validate h w tok) = Inr t"
  shows "ServeHTTP h w cs req =
           \<lparr>downstream =
              fst (confirm (Header_Set (filterIncomingHeaders req) ''X-Identity-Status'' ''Invalid'') t),
            cache_after =
              (case TokenCache h of
                 None \<Rightarrow> cs'
               | Some c \<Rightarrow>
                   cache_Set c tok t
                     (min (CacheTime h) (time_Sub (token_ExpiresAt t) (Now_ttl w))) cs'),
            cache_writes =
              (case TokenCache h of
                 None \<Rightarrow> []
               | Some c \<Rightarrow>
                   [(tok, t, min (CacheTime h) (time_Sub (token_ExpiresAt t) (Now_ttl w)))]),
            validate_calls = [tok],
            authority_requests = snd (validate h w tok),
            panicked =
              snd (confirm (Header_Set (filterIncomingHeaders req) ''X-Identity-Status'' ''Invalid'') t)\<rparr>"
  using assms
  by (cases "validate h w tok")
     (auto simp add: ServeHTTP_def Header_Get_sanitized_token Let_def min_def
           split: prod.splits option.splits sum.splits)

lemma cache_lookup_miss:
  assumes "TokenCache h = None \<or> (\<exists>c. TokenCache h = Some c \<and> fst (cache_Get c tok cs) = None)"
  shows "\<exists>cs'. (case TokenCache h of None \<Rightarrow> (None, cs) | Some c \<Rightarrow> cache_Get c tok cs) = (None, cs')"
  using assms by (auto simp add: prod_eq_iff)

lemma TokenCache_test_auth: "TokenCache test_auth = Some cacheMock"
  by (simp add: test_auth_def Handler_def)


lemma Header_Get_spoofed_token_request: "Header_Get spoofed_token_request ''X-Auth-Token'' = ''1234''"
  by (simp add: Header_Get_def spoofed_token_request_def)

lemma Header_Get_test_request: "Header_Get test_request ''X-Auth-Token'' = ''1234''"
  by (simp add: Header_Get_def test_request_def)

text \<open>
  C1 at a request the sanitizer lets through. \<open>filterIncomingHeaders\<close> deletes
  \<open>X-Servie-Catalog\<close>, not \<open>X-Service-Catalog\<close>: for the request of TestSpoofProtection
  with a service catalog added and no token, the next handler sees the status
  \<open>Invalid\<close> and no \<open>X-Project-Id\<close> or \<open>X-Domain-Id\<close>, and still the
  \<open>X-Service-Catalog\<close> the client sent.
\<close>

theorem ServeHTTP_service_catalog_not_removed:
  "downstream (ServeHTTP h w cs spoofed_request) ''X-Service-Catalog'' = Some [''spoofed'']
   \<and> downstream (ServeHTTP h w cs spoofed_request) ''X-Identity-Status'' = Some [''Invalid'']
   \<and> downstream (ServeHTTP h w cs spoofed_request) ''X-Project-Id'' = None
   \<and> downstream (ServeHTTP h w cs spoofed_request) ''X-Domain-Id'' = None"
proof -
  have "Header_Get spoofed_request ''X-Auth-Token'' = []"
    by (simp add: Header_Get_def spoofed_request_def)
  then show ?thesis
    by (simp add: ServeHTTP_no_token Header_Set_def filterIncomingHeaders_apply
          filtered_keys_def spoofed_request_def)
qed

text \<open>
  C7. For a request with a token that the cache (if there is one) does not hold and
  that \<open>validate\<close> rejects with any error, the next handler is called with the headers
  of the sanitized request and the status \<open>Invalid\<close>: none of the keys of the projection
  is set, \<open>ServeHTTP\<close> ends without a panic and writes nothing to the cache. The
  outcome has no other way out: the error is dropped, and the response is left to the
  next handler.
\<close>

theorem ServeHTTP_validation_failure:
  assumes "Header_Get req ''X-Auth-Token'' = tok" and "tok \<noteq> []"
      and "TokenCache h = None \<or> (\<exists>c. TokenCache h = Some c \<and> fst (cache_Get c tok cs) = None)"
      and "fst (validate h w tok) = Inl err"
  shows "downstream (ServeHTTP h w cs req)
           = Header_Set (filterIncomingHeaders req) ''X-Identity-Status'' ''Invalid''
       \<and> Header_Get (downstream (ServeHTTP h w cs req)) ''X-Identity-Status'' = ''Invalid''
       \<and> (\<forall>k \<in> set projected_keys. downstream (ServeHTTP h w cs req) k = None)
       \<and> panicked (ServeHTTP h w cs req) = None
       \<and> cache_writes (ServeHTTP h w cs req) = []
       \<and> validate_calls (ServeHTTP h w cs req) = [tok]"
proof -
  from cache_lookup_miss [OF assms(3)] obtain cs'
    where miss: "(case TokenCache h of None \<Rightarrow> (None, cs) | Some c \<Rightarrow> cache_Get c tok cs) = (None, cs')"
    by blast
  note run = ServeHTTP_rejected [OF assms(1) assms(2) miss assms(4)]
  show ?thesis
    by (simp add: run sanitized_projected_key) (simp add: Header_Get_def Header_Set_def)
qed

theorem ServeHTTP_validation_failure_witness:
  "Header_Get spoofed_token_request ''X-Auth-Token'' = ''1234''
   \<and> TokenCache test_auth = Some cacheMock
   \<and> fst (cache_Get cacheMock ''1234'' Map.empty) = None
   \<and> fst (validate test_auth (identityMock 401 ''401 Unauthorized'' unauthorized_body new_year_2016) ''1234'')
       = Inl (StatusAtLeast400 ''401 Unauthorized'')
   \<and> spoofed_token_request ''X-Roles'' = Some [''admin'']
   \<and> Header_Get (downstream (ServeHTTP test_auth
         (identityMock 401 ''401 Unauthorized'' unauthorized_body new_year_2016) Map.empty
         spoofed_token_request)) ''X-Identity-Status'' = ''Invalid''
   \<and> downstream (ServeHTTP test_auth
         (identityMock 401 ''401 Unauthorized'' unauthorized_body new_year_2016) Map.empty
         spoofed_token_request) ''X-Roles'' = None
   \<and> panicked (ServeHTTP test_auth
         (identityMock 401 ''401 Unauthorized'' unauthorized_body new_year_2016) Map.empty
         spoofed_token_request) = None"
proof -
  let ?w = "identityMock 401 ''401 Unauthorized'' unauthorized_body new_year_2016"
  have miss: "fst (cache_Get cacheMock ''1234'' Map.empty) = None"
    by (simp add: cacheMock_def)
  then have lookup: "TokenCache test_auth = None
      \<or> (\<exists>c. TokenCache test_auth = Some c \<and> fst (cache_Get c ''1234'' Map.empty) = None)"
    by (simp add: TokenCache_test_auth)
  have failed: "fst (validate test_auth ?w ''1234'') = Inl (StatusAtLeast400 ''401 Unauthorized'')"
    by (simp add: validate_def identityMock_def)
  have roles: "''X-Roles'' \<in> set projected_keys" by (simp add: projected_keys_def)
  have spoofed: "spoofed_token_request ''X-Roles'' = Some [''admin'']"
    by (simp add: spoofed_token_request_def)
  note run = ServeHTTP_validation_failure [OF Header_Get_spoofed_token_request _ lookup failed]
  from run roles
  have "Header_Get (downstream (ServeHTTP test_auth ?w Map.empty spoofed_token_request))
          ''X-Identity-Status'' = ''Invalid''
      \<and> downstream (ServeHTTP test_auth ?w Map.empty spoofed_token_request) ''X-Roles'' = None
      \<and> panicked (ServeHTTP test_auth ?w Map.empty spoofed_token_request) = None"
    by blast
  with Header_Get_spoofed_token_request TokenCache_test_auth miss failed spoofed
  show ?thesis by simp
qed

text \<open>
  C10. For a request whose token the cache returns, the next handler sees the status
  \<open>Confirmed\<close> and the projection of the cached token over the sanitized request (or,
  where the projection panics, the status alone and then the panic); \<open>validate\<close> is not
  called, no request goes to the identity server, and nothing is written to the cache.
  The outcome is the same whatever the clock and the other collaborators say: \<open>Valid\<close>
  is not consulted, so a cached token that has expired is confirmed all the same.
\<close>

theorem ServeHTTP_cache_hit:
  assumes "Header_Get req ''X-Auth-Token'' = tok" and "tok \<noteq> []"
      and "TokenCache h = Some c" and "cache_Get c tok cs = (Some cached, cs')"
  shows "Header_Get (downstream (ServeHTTP h w cs req)) ''X-Identity-Status'' = ''Confirmed''
       \<and> (downstream (ServeHTTP h w cs req), panicked (ServeHTTP h w cs req))
           = (case Headers cached of
                Inl p \<Rightarrow>
                  (Header_Set (filterIncomingHeaders req) ''X-Identity-Status'' ''Confirmed'', Some p)
              | Inr hs \<Rightarrow>
                  (set_headers hs
                     (Header_Set (filterIncomingHeaders req) ''X-Identity-Status'' ''Confirmed''),
                   None))
       \<and> validate_calls (ServeHTTP h w cs req) = []
       \<and> authority_requests (ServeHTTP h w cs req) = []
       \<and> cache_writes (ServeHTTP h w cs req) = []
       \<and> (\<forall>w'. ServeHTTP h w' cs req = ServeHTTP h w cs req)"
proof -
  note run = ServeHTTP_hit [OF assms]
  have status: "Header_Get (downstream (ServeHTTP h w cs req)) ''X-Identity-Status'' = ''Confirmed''"
    by (simp add: run Header_Get_def confirm_status)
  have proj: "(downstream (ServeHTTP h w cs req), panicked (ServeHTTP h w cs req))
           = (case Headers cached of
                Inl p \<Rightarrow>
                  (Header_Set (filterIncomingHeaders req) ''X-Identity-Status'' ''Confirmed'', Some p)
              | Inr hs \<Rightarrow>
                  (set_headers hs
                     (Header_Set (filterIncomingHeaders req) ''X-Identity-Status'' ''Confirmed''),
                   None))"
    by (simp add: run confirm_overwrites_status)
  from status proj show ?thesis by (simp add: run)
qed

theorem ServeHTTP_cache_hit_witness:
  "Header_Get test_request ''X-Auth-Token'' = ''1234''
   \<and> TokenCache test_auth = Some cacheMock
   \<and> cache_Get cacheMock ''1234'' [''1234'' \<mapsto> domain_scoped_token]
       = (Some domain_scoped_token, [''1234'' \<mapsto> domain_scoped_token])
   \<and> token_ExpiresAt domain_scoped_token < new_year_2016
   \<and> \<not> Valid domain_scoped_token new_year_2016
   \<and> Header_Get (downstream (ServeHTTP test_auth (offline new_year_2016)
         [''1234'' \<mapsto> domain_scoped_token] test_request)) ''X-Identity-Status'' = ''Confirmed''
   \<and> Header_Get (downstream (ServeHTTP test_auth (offline new_year_2016)
         [''1234'' \<mapsto> domain_scoped_token] test_request)) ''X-Domain-Id'' = ''o-testdomain''
   \<and> validate_calls (ServeHTTP test_auth (offline new_year_2016)
         [''1234'' \<mapsto> domain_scoped_token] test_request) = []"
proof -
  let ?cs = "[''1234'' \<mapsto> domain_scoped_token]"
  let ?out = "ServeHTTP test_auth (offline new_year_2016) ?cs test_request"
  have hit: "cache_Get cacheMock ''1234'' ?cs = (Some domain_scoped_token, ?cs)"
    by (simp add: cacheMock_def)
  have expired: "token_ExpiresAt domain_scoped_token < new_year_2016"
    "\<not> Valid domain_scoped_token new_year_2016"
    by (simp_all add: Valid_def time_Unix_def domain_scoped_token_def new_year_2016_def)
  have hs: "Headers domain_scoped_token
              = Inr [''X-User-Id'' \<mapsto> ''u-42e54ca0c'', ''X-User-Name'' \<mapsto> ''arc'',
                     ''X-User-Domain-Id'' \<mapsto> ''o-testdomain'',
                     ''X-User-Domain-Name'' \<mapsto> ''testdomain'',
                     ''X-Domain-Id'' \<mapsto> ''o-testdomain'', ''X-Domain-Name'' \<mapsto> ''testdomain'',
                     ''X-Roles'' \<mapsto> ''member,blafasel'']"
    by (simp add: Headers_def domain_scoped_token_def test_user_def test_domain_def)
  note run = ServeHTTP_cache_hit [OF Header_Get_test_request _ TokenCache_test_auth hit,
      where w = "offline new_year_2016"]
  from run have status: "Header_Get (downstream ?out) ''X-Identity-Status'' = ''Confirmed''"
    and calls: "validate_calls ?out = []"
    by simp_all
  from run have "downstream ?out
      = set_headers [''X-User-Id'' \<mapsto> ''u-42e54ca0c'', ''X-User-Name'' \<mapsto> ''arc'',
                     ''X-User-Domain-Id'' \<mapsto> ''o-testdomain'',
                     ''X-User-Domain-Name'' \<mapsto> ''testdomain'',
                     ''X-Domain-Id'' \<mapsto> ''o-testdomain'', ''X-Domain-Name'' \<mapsto> ''testdomain'',
                     ''X-Roles'' \<mapsto> ''member,blafasel'']
          (Header_Set (filterIncomingHeaders test_request) ''X-Identity-Status'' ''Confirmed'')"
    by (simp add: hs)
  then have "Header_Get (downstream ?out) ''X-Domain-Id'' = ''o-testdomain''"
    by (simp add: Header_Get_def set_headers_def)
  with status calls hit expired Header_Get_test_request TokenCache_test_auth
  show ?thesis by simp
qed

subsection \<open>The cache\<close>

lemma time_Sub_cases:
  "time_Sub t u = (if t - u < minDuration then minDuration
                   else if maxDuration < t - u then maxDuration else t - u)"
  by (simp add: time_Sub_def Let_def)

lemma time_Sub_exact:
  assumes "minDuration \<le> t - u" and "t - u \<le> maxDuration"
  shows "time_Sub t u = t - u"
  using assms by (simp add: time_Sub_cases)




lemma validate_identityMock_200:
  assumes "test_Decode body = Inr \<lparr>resp_Error = None, resp_Token = Some t\<rparr>" and "Valid t now"
  shows "validate h (identityMock 200 status body now) tok = (Inr t, [validate_request h tok])"
  using assms by (simp add: validate_def identityMock_def)

lemma cacheMock_miss:
  "(case TokenCache test_auth of None \<Rightarrow> (None, Map.empty)
    | Some c \<Rightarrow> cache_Get c tok Map.empty) = (None, Map.empty)"
  by (simp add: TokenCache_test_auth cacheMock_def)



text \<open>
  C8. With a cache, let a first request miss the cache and have its token validated,
  and let the cache return the stored record to a second request with the same token.
  Then the first run stored exactly that record under the token; the second run does
  not call \<open>validate\<close>, sends nothing to the identity server and writes nothing to the
  cache; and the next handler sees the same value as in the first run under
  \<open>X-Identity-Status\<close> (\<open>Confirmed\<close>) and under every key of the projection, and the
  run ends the same way. When the two requests agree on the headers the sanitizer
  keeps, the next handler sees the same headers altogether.
\<close>

theorem ServeHTTP_cache_round_trip:
  assumes "Header_Get req1 ''X-Auth-Token'' = tok" and "Header_Get req2 ''X-Auth-Token'' = tok"
      and "tok \<noteq> []"
      and "TokenCache h = Some c"
      and "fst (cache_Get c tok cs) = None"
      and "fst (validate h w1 tok) = Inr t"
      and "fst (cache_Get c tok (cache_after (ServeHTTP h w1 cs req1))) = Some t"
  shows "(\<exists>ttl. cache_writes (ServeHTTP h w1 cs req1) = [(tok, t, ttl)])
       \<and> validate_calls (ServeHTTP h w1 cs req1) = [tok]
       \<and> validate_calls (ServeHTTP h w2 (cache_after (ServeHTTP h w1 cs req1)) req2) = []
       \<and> authority_requests (ServeHTTP h w2 (cache_after (ServeHTTP h w1 cs req1)) req2) = []
       \<and> cache_writes (ServeHTTP h w2 (cache_after (ServeHTTP h w1 cs req1)) req2) = []
       \<and> panicked (ServeHTTP h w2 (cache_after (ServeHTTP h w1 cs req1)) req2)
           = panicked (ServeHTTP h w1 cs req1)
       \<and> downstream (ServeHTTP h w1 cs req1) ''X-Identity-Status'' = Some [''Confirmed'']
       \<and> (\<forall>k \<in> set (''X-Identity-Status'' # projected_keys).
             downstream (ServeHTTP h w2 (cache_after (ServeHTTP h w1 cs req1)) req2) k
               = downstream (ServeHTTP h w1 cs req1) k)
       \<and> (filterIncomingHeaders req2 = filterIncomingHeaders req1 \<longrightarrow>
             downstream (ServeHTTP h w2 (cache_after (ServeHTTP h w1 cs req1)) req2)
               = downstream (ServeHTTP h w1 cs req1))"
proof -
  let ?out1 = "ServeHTTP h w1 cs req1"
  let ?out2 = "ServeHTTP h w2 (cache_after ?out1) req2"
  let ?base1 = "Header_Set (filterIncomingHeaders req1) ''X-Identity-Status'' ''Invalid''"
  let ?base2 = "Header_Set (filterIncomingHeaders req2) ''X-Identity-Status'' ''Invalid''"
  obtain cs1 where miss: "cache_Get c tok cs = (None, cs1)"
    using assms(5) by (cases "cache_Get c tok cs") simp
  then have lookup:
    "(case TokenCache h of None \<Rightarrow> (None, cs) | Some c \<Rightarrow> cache_Get c tok cs) = (None, cs1)"
    using assms(4) by simp
  note run1 = ServeHTTP_validated [OF assms(1) assms(3) lookup assms(6)]
  obtain cs2 where hit: "cache_Get c tok (cache_after ?out1) = (Some t, cs2)"
    using assms(7) by (cases "cache_Get c tok (cache_after ?out1)") simp
  note run2 = ServeHTTP_hit [OF assms(2) assms(3) assms(4) hit]
  have d1: "downstream ?out1 = fst (confirm ?base1 t)" by (simp add: run1)
  have d2: "downstream ?out2 = fst (confirm ?base2 t)" by (simp add: run2)
  have p: "panicked ?out2 = panicked ?out1"
    by (simp add: run2 confirm_panic) (simp add: run1 confirm_panic)
  have writes1: "\<exists>ttl. cache_writes ?out1 = [(tok, t, ttl)]"
    by (simp add: run1 assms(4))
  have calls1: "validate_calls ?out1 = [tok]" by (simp add: run1)
  have quiet: "validate_calls ?out2 = []" "authority_requests ?out2 = []" "cache_writes ?out2 = []"
    by (simp_all add: run2)
  have status1: "downstream ?out1 ''X-Identity-Status'' = Some [''Confirmed'']"
    unfolding d1 by (rule confirm_status)
  have same: "downstream ?out2 k = downstream ?out1 k"
    if k: "k \<in> set (''X-Identity-Status'' # projected_keys)" for k
  proof (cases "k = ''X-Identity-Status''")
    case True
    then show ?thesis unfolding d1 d2 by (simp add: confirm_status)
  next
    case False
    with k have "k \<in> set projected_keys" by simp
    then have b1: "?base1 k = None" and b2: "?base2 k = None"
      by (rule sanitized_projected_key)+
    show ?thesis
      unfolding d1 d2 confirm_projected_key [OF False] b1 b2 ..
  qed
  have whole: "downstream ?out2 = downstream ?out1"
    if "filterIncomingHeaders req2 = filterIncomingHeaders req1"
    unfolding d1 d2 using that by simp
  have all_same: "\<forall>k \<in> set (''X-Identity-Status'' # projected_keys).
      downstream ?out2 k = downstream ?out1 k"
    using same by (intro ballI)
  have whole_imp: "filterIncomingHeaders req2 = filterIncomingHeaders req1 \<longrightarrow>
      downstream ?out2 = downstream ?out1"
    using whole by (intro impI)
  show ?thesis
    by (intro conjI) (fact writes1 calls1 quiet p status1 all_same whole_imp)+
qed

theorem ServeHTTP_cache_round_trip_witness:
  "Header_Get test_request ''X-Auth-Token'' = ''1234''
   \<and> Header_Get spoofed_token_request ''X-Auth-Token'' = ''1234''
   \<and> TokenCache test_auth = Some cacheMock
   \<and> fst (cache_Get cacheMock ''1234'' Map.empty) = None
   \<and> fst (validate test_auth (identityMock 200 ''200 OK'' unscoped_body new_year_2016) ''1234'')
       = Inr unscoped_token
   \<and> fst (cache_Get cacheMock ''1234'' (cache_after first_outcome)) = Some unscoped_token
   \<and> spoofed_token_request ''X-Roles'' = Some [''admin'']
   \<and> validate_calls first_outcome = [''1234'']
   \<and> validate_calls second_outcome = []
   \<and> authority_requests second_outcome = []
   \<and> panicked second_outcome = panicked first_outcome
   \<and> downstream first_outcome ''X-Identity-Status'' = Some [''Confirmed'']
   \<and> downstream second_outcome ''X-Identity-Status'' = downstream first_outcome ''X-Identity-Status''
   \<and> downstream second_outcome ''X-User-Id'' = downstream first_outcome ''X-User-Id''
   \<and> downstream second_outcome ''X-Roles'' = downstream first_outcome ''X-Roles''"
proof -
  let ?w1 = "identityMock 200 ''200 OK'' unscoped_body new_year_2016"
  have token: "''1234'' \<noteq> []" by simp
  have miss: "fst (cache_Get cacheMock ''1234'' Map.empty) = None"
    by (simp add: cacheMock_def)
  have valid: "Valid unscoped_token new_year_2016"
    by (simp add: Valid_def time_Unix_def unscoped_token_def new_year_2016_def)
  have ok: "fst (validate test_auth ?w1 ''1234'') = Inr unscoped_token"
    by (simp add: validate_identityMock_200 [OF test_Decode_unscoped_body valid])
  note run1 = ServeHTTP_validated [OF Header_Get_test_request token cacheMock_miss ok]
  have after: "cache_Get cacheMock ''1234'' (cache_after first_outcome)
                 = (Some unscoped_token, cache_after first_outcome)"
    unfolding first_outcome_def run1 by (simp add: TokenCache_test_auth cacheMock_def)
  then have stored: "fst (cache_Get cacheMock ''1234''
      (cache_after (ServeHTTP test_auth ?w1 Map.empty test_request))) = Some unscoped_token"
    by (simp add: first_outcome_def)
  have spoofed: "spoofed_token_request ''X-Roles'' = Some [''admin'']"
    by (simp add: spoofed_token_request_def)
  have keys: "''X-Identity-Status'' \<in> set (''X-Identity-Status'' # projected_keys)"
    "''X-User-Id'' \<in> set (''X-Identity-Status'' # projected_keys)"
    "''X-Roles'' \<in> set (''X-Identity-Status'' # projected_keys)"
    by (simp_all add: projected_keys_def)
  note trip = ServeHTTP_cache_round_trip [OF Header_Get_test_request
      Header_Get_spoofed_token_request token TokenCache_test_auth miss ok stored,
      where ?w2.0 = "offline new_year_2016", folded first_outcome_def, folded second_outcome_def]
  from trip keys
  have "validate_calls first_outcome = [''1234'']
      \<and> validate_calls second_outcome = []
      \<and> authority_requests second_outcome = []
      \<and> panicked second_outcome = panicked first_outcome
      \<and> downstream first_outcome ''X-Identity-Status'' = Some [''Confirmed'']
      \<and> downstream second_outcome ''X-Identity-Status'' = downstream first_outcome ''X-Identity-Status''
      \<and> downstream second_outcome ''X-User-Id'' = downstream first_outcome ''X-User-Id''
      \<and> downstream second_outcome ''X-Roles'' = downstream first_outcome ''X-Roles''"
    by blast
  with Header_Get_test_request Header_Get_spoofed_token_request TokenCache_test_auth miss ok
    after spoofed
  show ?thesis by simp
qed

end
